theory Spec2Isabelle
  imports Complex_Main "HOL-Library.AList"
begin

section \<open>Python values as the scorer sees them\<close>

text \<open>
  The scorer module \<^verbatim>\<open>scorers/simpleqa_search_signal.py\<close> probes its arguments by
  attribute name, by dictionary key and by truthiness, so the embedding works on a
  universe of Python values: the scalars, lists, dictionaries with string keys (in
  insertion order) and plain objects, an object being the bag of its instance
  attributes. Strings are lists of 8-bit characters (code points below 256); a float is
  given by its exact value. Objects carry no callable attribute and no special method,
  so an object is truthy, is not iterable and has no method of its own. An object's
  class may define properties whose getter raises (as \<^verbatim>\<open>ModelOutput.message\<close> does,
  with \<^verbatim>\<open>IndexError\<close>, when the output has no choices): \<open>PObjProps attrs props\<close> is an
  object with the instance attributes \<open>attrs\<close> and, for each name in \<open>props\<close>, a property
  whose getter raises the exception given. A property that returns a value reads like
  an attribute and is listed among \<open>attrs\<close>.
\<close>

text \<open>The exceptions the module can end in: those raised by the duck-typed accesses and
  by property getters, and whatever the baseline grader raises.\<close>

datatype error =
    AttributeError
  | TypeError
  | IndexError
  | GraderError string

datatype pyval =
    PNone
  | PBool bool
  | PInt int
  | PFloat rat
  | PStr string
  | PList "pyval list"
  | PDict "(string \<times> pyval) list"
  | PObj "(string \<times> pyval) list"
  | PObjProps "(string \<times> pyval) list" "(string \<times> error) list"

text \<open>\<^verbatim>\<open>bool(v)\<close>, which is also the test of \<^verbatim>\<open>if v\<close> and of \<^verbatim>\<open>v or w\<close>.\<close>

fun truthy :: "pyval \<Rightarrow> bool" where
  "truthy PNone = False"
| "truthy (PBool b) = b"
| "truthy (PInt i) = (i \<noteq> 0)"
| "truthy (PFloat q) = (q \<noteq> 0)"
| "truthy (PStr s) = (s \<noteq> [])"
| "truthy (PList xs) = (xs \<noteq> [])"
| "truthy (PDict kvs) = (kvs \<noteq> [])"
| "truthy (PObj attrs) = True"
| "truthy (PObjProps attrs props) = True"

text \<open>\<^verbatim>\<open>v.name\<close>, for the attribute names the module reads (\<^verbatim>\<open>output\<close>, \<^verbatim>\<open>completion\<close>,
  \<^verbatim>\<open>message\<close>, \<^verbatim>\<open>tool_calls\<close>, \<^verbatim>\<open>name\<close>, \<^verbatim>\<open>function\<close>, \<^verbatim>\<open>role\<close>, \<^verbatim>\<open>messages\<close>): no builtin
  value has one of them, so only an object can. A missing attribute raises
  \<^verbatim>\<open>AttributeError\<close>; a property raises what its getter raises, and comes before an
  instance attribute of the same name.\<close>

fun attr :: "pyval \<Rightarrow> string \<Rightarrow> error + pyval" where
  "attr (PObj attrs) name = (case map_of attrs name of Some v \<Rightarrow> Inr v | None \<Rightarrow> Inl AttributeError)"
| "attr (PObjProps attrs props) name =
     (case map_of props name of
        Some e \<Rightarrow> Inl e
      | None \<Rightarrow> (case map_of attrs name of Some v \<Rightarrow> Inr v | None \<Rightarrow> Inl AttributeError))"
| "attr v name = Inl AttributeError"

text \<open>\<^verbatim>\<open>getattr(v, name, dflt)\<close>: the default stands in for \<^verbatim>\<open>AttributeError\<close> only; any other
  exception of the access goes through.\<close>

definition getattr :: "pyval \<Rightarrow> string \<Rightarrow> pyval \<Rightarrow> error + pyval" where
  "getattr v name dflt =
     (case attr v name of
        Inr x \<Rightarrow> Inr x
      | Inl e \<Rightarrow> if e = AttributeError then Inr dflt else Inl e)"

text \<open>\<^verbatim>\<open>d.get(key, dflt)\<close> on a dictionary.\<close>

definition dict_get :: "(string \<times> pyval) list \<Rightarrow> string \<Rightarrow> pyval \<Rightarrow> pyval" where
  "dict_get d key dflt = (case map_of d key of Some v \<Rightarrow> v | None \<Rightarrow> dflt)"

text \<open>The exception of \<^verbatim>\<open>v.name(...)\<close> when \<^verbatim>\<open>v\<close> has no method \<^verbatim>\<open>name\<close>: the attribute is
  missing, or its getter raises, or it is an instance attribute holding a value that
  cannot be called.\<close>

fun no_method :: "pyval \<Rightarrow> string \<Rightarrow> error" where
  "no_method (PObj attrs) name = (if map_of attrs name = None then AttributeError else TypeError)"
| "no_method (PObjProps attrs props) name =
     (case map_of props name of
        Some e \<Rightarrow> e
      | None \<Rightarrow> if map_of attrs name = None then AttributeError else TypeError)"
| "no_method v name = AttributeError"

text \<open>The items a \<^verbatim>\<open>for\<close> loop draws from a value: the elements of a list, the characters
  of a string, the keys of a dictionary; anything else is not iterable.\<close>

fun py_iter :: "pyval \<Rightarrow> error + pyval list" where
  "py_iter (PList xs) = Inr xs"
| "py_iter (PStr s) = Inr (map (\<lambda>c. PStr [c]) s)"
| "py_iter (PDict kvs) = Inr (map (\<lambda>kv. PStr (fst kv)) kvs)"
| "py_iter v = Inl TypeError"

text \<open>\<^verbatim>\<open>str(v)\<close>: the identity on a string. How Python renders any other value is not
  part of the module, and is the parameter \<open>to_str\<close> of the functions below.\<close>

fun py_str :: "(pyval \<Rightarrow> string) \<Rightarrow> pyval \<Rightarrow> string" where
  "py_str to_str (PStr s) = s"
| "py_str to_str v = to_str v"

text \<open>A rendering for the examples, all of whose names are strings already, so that
  it is never consulted.\<close>

definition no_render :: "pyval \<Rightarrow> string" where
  "no_render v = []"

subsection \<open>\<^verbatim>\<open>str.strip\<close> and \<^verbatim>\<open>str.lower\<close>\<close>

text \<open>The characters \<^verbatim>\<open>str.isspace\<close> accepts, among the code points below 256.\<close>

definition is_space :: "char \<Rightarrow> bool" where
  "is_space c = (let n = (of_char c :: nat) in
     (9 \<le> n \<and> n \<le> 13) \<or> (28 \<le> n \<and> n \<le> 32) \<or> n = 133 \<or> n = 160)"

definition strip :: "string \<Rightarrow> string" where
  "strip s = rev (dropWhile is_space (rev (dropWhile is_space s)))"

text \<open>\<^verbatim>\<open>str.lower\<close> among the code points below 256: the letters A to Z and the
  accented capitals 192 to 222 (but the multiplication sign 215) move up by 32.\<close>

definition lower_char :: "char \<Rightarrow> char" where
  "lower_char c = (let n = (of_char c :: nat) in
     if (65 \<le> n \<and> n \<le> 90) \<or> (192 \<le> n \<and> n \<le> 214) \<or> (216 \<le> n \<and> n \<le> 222)
     then char_of (n + 32) else c)"

definition lower :: "string \<Rightarrow> string" where
  "lower s = map lower_char s"

section \<open>The tool-call detector\<close>

text \<open>The name of one tool-call entry (lines 34 to 41, and again 52 to 59): a dictionary
  is asked for \<^verbatim>\<open>name\<close>, then for \<^verbatim>\<open>function\<close> and its \<^verbatim>\<open>name\<close>, with \<^verbatim>\<open>or\<close> between them;
  any other value is asked for the attribute \<^verbatim>\<open>name\<close> and, when that is \<^verbatim>\<open>None\<close>, for
  the attribute \<^verbatim>\<open>name\<close> of its attribute \<^verbatim>\<open>function\<close>. On a dictionary the second
  \<^verbatim>\<open>.get\<close> is called on whatever truthy value \<^verbatim>\<open>function\<close> holds.\<close>

definition tool_call_name :: "pyval \<Rightarrow> error + pyval" where
  "tool_call_name tc =
     (case tc of
        PDict d \<Rightarrow>
          (let n = dict_get d ''name'' PNone in
           if truthy n then Inr n
           else
             (let f = dict_get d ''function'' PNone in
              if truthy f then
                (case f of
                   PDict fd \<Rightarrow> Inr (dict_get fd ''name'' PNone)
                 | _ \<Rightarrow> Inl (no_method f ''get''))
              else Inr PNone))
      | _ \<Rightarrow>
          (case getattr tc ''name'' PNone of
             Inl e \<Rightarrow> Inl e
           | Inr n \<Rightarrow>
               if n = PNone then
                 (case getattr tc ''function'' PNone of
                    Inl e \<Rightarrow> Inl e
                  | Inr func \<Rightarrow> getattr func ''name'' PNone)
               else Inr n))"

text \<open>The loop over the entries (lines 32 to 43, and again 51 to 61), appending the
  rendering of every truthy name to \<^verbatim>\<open>tool_names\<close>.\<close>

fun collect_tool_names :: "(pyval \<Rightarrow> string) \<Rightarrow> pyval list \<Rightarrow> string list \<Rightarrow> error + string list" where
  "collect_tool_names to_str [] tool_names = Inr tool_names"
| "collect_tool_names to_str (tc # tcs) tool_names =
     (case tool_call_name tc of
        Inl e \<Rightarrow> Inl e
      | Inr name \<Rightarrow>
          collect_tool_names to_str tcs
            (if truthy name then tool_names @ [py_str to_str name] else tool_names))"

text \<open>What both branches do with a truthy \<^verbatim>\<open>tool_calls\<close>: loop over it, appending to
  \<^verbatim>\<open>tool_names\<close>, and return \<^verbatim>\<open>True\<close> with the names (lines 32 to 44, and 51 to 62).\<close>

definition names_of_calls ::
  "(pyval \<Rightarrow> string) \<Rightarrow> pyval \<Rightarrow> string list \<Rightarrow> error + bool \<times> string list" where
  "names_of_calls to_str tool_calls tool_names =
     (case py_iter tool_calls of
        Inl e \<Rightarrow> Inl e
      | Inr tcs \<Rightarrow>
          (case collect_tool_names to_str tcs tool_names of
             Inl e \<Rightarrow> Inl e
           | Inr tool_names' \<Rightarrow> Inr (True, tool_names')))"

text \<open>The fallback loop over \<^verbatim>\<open>state.messages\<close> (lines 47 to 64): it returns at the first
  message whose role is \<^verbatim>\<open>"assistant"\<close> and whose \<^verbatim>\<open>tool_calls\<close> is truthy, and after the
  last message it returns \<^verbatim>\<open>False\<close> with \<^verbatim>\<open>tool_names\<close> as it stands.\<close>

fun scan_messages ::
  "(pyval \<Rightarrow> string) \<Rightarrow> pyval list \<Rightarrow> string list \<Rightarrow> error + bool \<times> string list" where
  "scan_messages to_str [] tool_names = Inr (False, tool_names)"
| "scan_messages to_str (m # ms) tool_names =
     (case getattr m ''role'' PNone of
        Inl e \<Rightarrow> Inl e
      | Inr role \<Rightarrow>
          if role = PStr ''assistant'' then
            (case getattr m ''tool_calls'' PNone of
               Inl e \<Rightarrow> Inl e
             | Inr m_tool_calls \<Rightarrow>
                 if truthy m_tool_calls then names_of_calls to_str m_tool_calls tool_names
                 else scan_messages to_str ms tool_names)
          else scan_messages to_str ms tool_names)"

text \<open>\<^verbatim>\<open>_extract_tool_calls(state)\<close>.\<close>

definition extract_tool_calls :: "(pyval \<Rightarrow> string) \<Rightarrow> pyval \<Rightarrow> error + bool \<times> string list" where
  "extract_tool_calls to_str state =
     (let tool_names = [] in
      case attr state ''output'' of
        Inl e \<Rightarrow> Inl e
      | Inr output \<Rightarrow>
          (case getattr output ''message'' PNone of
             Inl e \<Rightarrow> Inl e
           | Inr msg \<Rightarrow>
               (case getattr msg ''tool_calls'' PNone of
                  Inl e \<Rightarrow> Inl e
                | Inr tool_calls \<Rightarrow>
                    if truthy tool_calls then names_of_calls to_str tool_calls tool_names
                    else
                      (case getattr state ''messages'' (PList []) of
                         Inl e \<Rightarrow> Inl e
                       | Inr messages \<Rightarrow>
                           (case py_iter (if truthy messages then messages else PList []) of
                              Inl e \<Rightarrow> Inl e
                            | Inr ms \<Rightarrow> scan_messages to_str ms tool_names)))))"

section \<open>The metrics aggregator\<close>

text \<open>A \<^verbatim>\<open>Score\<close> by the three fields the module reads and writes. Its metadata is a
  dictionary or \<^verbatim>\<open>None\<close>. A \<^verbatim>\<open>SampleScore\<close> is represented by the \<^verbatim>\<open>Score\<close> it holds.\<close>

record Score =
  score_value :: pyval
  answer :: "string option"
  metadata :: "(string \<times> pyval) list option"

text \<open>\<^verbatim>\<open>metadata or {}\<close>.\<close>

definition metadata_or_empty :: "Score \<Rightarrow> (string \<times> pyval) list" where
  "metadata_or_empty s = (case metadata s of None \<Rightarrow> [] | Some md \<Rightarrow> md)"

text \<open>\<^verbatim>\<open>(md.get("grade") or "").lower()\<close> (line 88).\<close>

definition lowered_grade :: "(string \<times> pyval) list \<Rightarrow> error + string" where
  "lowered_grade md =
     (let g = dict_get md ''grade'' PNone in
      if truthy g then (case g of PStr s \<Rightarrow> Inr (lower s) | _ \<Rightarrow> Inl (no_method g ''lower''))
      else Inr (lower []))"

text \<open>The four rates. Python's \<^verbatim>\<open>/\<close> on two integers gives the float nearest to the
  exact quotient; the embedding keeps the exact quotient.\<close>

record RunMetrics =
  search_call_rate :: rat
  abstain_via_tool_rate :: rat
  attempted_answer_rate :: rat
  hallucination_rate :: rat

text \<open>The loop of lines 86 to 100 over the four counters \<^verbatim>\<open>tool_called\<close>,
  \<^verbatim>\<open>abstain_via_tool\<close>, \<^verbatim>\<open>attempted_answers\<close> and \<^verbatim>\<open>incorrect_answers\<close>.\<close>

fun tally :: "Score list \<Rightarrow> nat \<times> nat \<times> nat \<times> nat \<Rightarrow> error + nat \<times> nat \<times> nat \<times> nat" where
  "tally [] counters = Inr counters"
| "tally (s # ss) (tool_called, abstain_via_tool, attempted_answers, incorrect_answers) =
     (let md = metadata_or_empty s in
      case lowered_grade md of
        Inl e \<Rightarrow> Inl e
      | Inr grade \<Rightarrow>
          (let tool = truthy (dict_get md ''tool_called'' (PBool False));
               abstention_reason = dict_get md ''abstention_reason'' PNone;
               tool_called' = (if tool then tool_called + 1 else tool_called)
           in
           if grade = ''correct'' \<or> grade = ''incorrect'' then
             tally ss (tool_called', abstain_via_tool, attempted_answers + 1,
               if grade = ''incorrect'' then incorrect_answers + 1 else incorrect_answers)
           else if tool \<and> abstention_reason = PStr ''tool_call'' then
             tally ss (tool_called', abstain_via_tool + 1, attempted_answers, incorrect_answers)
           else tally ss (tool_called', abstain_via_tool, attempted_answers, incorrect_answers)))"

text \<open>\<^verbatim>\<open>metric_calculator(scores)\<close>.\<close>

definition metric_calculator :: "Score list \<Rightarrow> error + RunMetrics" where
  "metric_calculator scores =
     (if scores = [] then
        Inr \<lparr>search_call_rate = 0, abstain_via_tool_rate = 0,
             attempted_answer_rate = 0, hallucination_rate = 0\<rparr>
      else
        (let total = length scores in
         case tally scores (0, 0, 0, 0) of
           Inl e \<Rightarrow> Inl e
         | Inr (tool_called, abstain_via_tool, attempted_answers, incorrect_answers) \<Rightarrow>
             Inr \<lparr>search_call_rate = of_nat tool_called / of_nat total,
                  abstain_via_tool_rate = of_nat abstain_via_tool / of_nat total,
                  attempted_answer_rate = of_nat attempted_answers / of_nat total,
                  hallucination_rate =
                    (if attempted_answers > 0
                     then of_nat incorrect_answers / of_nat attempted_answers else 0)\<rparr>))"

section \<open>The scorer\<close>

text \<open>\<^verbatim>\<open>(state.output.completion or "").strip()\<close> (line 132).\<close>

definition predicted_answer :: "pyval \<Rightarrow> error + string" where
  "predicted_answer state =
     (case attr state ''output'' of
        Inl e \<Rightarrow> Inl e
      | Inr output \<Rightarrow>
          (case attr output ''completion'' of
             Inl e \<Rightarrow> Inl e
           | Inr c \<Rightarrow>
               if truthy c then
                 (case c of PStr s \<Rightarrow> Inr (strip s) | _ \<Rightarrow> Inl (no_method c ''strip''))
               else Inr (strip [])))"

text \<open>The value stored under \<^verbatim>\<open>abstention_reason\<close> (lines 160 to 163): the baseline's
  own when it is truthy; otherwise the grade is read, with \<^verbatim>\<open>""\<close> for a missing key,
  and lower-cased.\<close>

definition abstention_reason_of :: "(string \<times> pyval) list \<Rightarrow> bool \<Rightarrow> error + pyval" where
  "abstention_reason_of md tool_called =
     (let r = dict_get md ''abstention_reason'' PNone in
      if truthy r then Inr r
      else
        (case dict_get md ''grade'' (PStr []) of
           PStr g \<Rightarrow>
             Inr (if lower g = ''not_attempted'' \<and> \<not> tool_called
                  then PStr ''grader_not_attempted'' else PNone)
         | v \<Rightarrow> Inl (no_method v ''lower'')))"

text \<open>\<^verbatim>\<open>md.update({...})\<close> (lines 155 to 165): the three values are computed first, then
  stored in the order written; a key already there keeps its place.\<close>

definition merge_metadata ::
  "(string \<times> pyval) list \<Rightarrow> bool \<Rightarrow> string list \<Rightarrow> error + (string \<times> pyval) list" where
  "merge_metadata md tool_called tool_names =
     (case abstention_reason_of md tool_called of
        Inl e \<Rightarrow> Inl e
      | Inr r \<Rightarrow>
          Inr (AList.update ''abstention_reason'' r
                (AList.update ''tools'' (PList (map PStr tool_names))
                  (AList.update ''tool_called'' (PBool tool_called) md))))"

text \<open>The score of the short-circuit path (lines 139 to 149).\<close>

definition tool_abstention :: "string \<Rightarrow> string list \<Rightarrow> Score" where
  "tool_abstention predicted tool_names =
     \<lparr>score_value = PFloat 0, answer = Some predicted,
      metadata = Some [(''grade'', PStr ''not_attempted''),
                       (''grade_letter'', PStr ''C''),
                       (''tool_called'', PBool True),
                       (''tools'', PList (map PStr tool_names)),
                       (''abstention_reason'', PStr ''tool_call'')]\<rparr>"

text \<open>\<^verbatim>\<open>score(state, target)\<close>. The baseline grader is a collaborator with an effect (a
  call to the judge model): it takes the state \<open>w\<close> of the world outside and gives it
  back changed, and the scorer threads that state through.\<close>

definition score ::
  "(pyval \<Rightarrow> string) \<Rightarrow> (pyval \<Rightarrow> 't \<Rightarrow> 'w \<Rightarrow> (error + Score) \<times> 'w) \<Rightarrow>
   pyval \<Rightarrow> 't \<Rightarrow> 'w \<Rightarrow> (error + Score) \<times> 'w" where
  "score to_str baseline_grader state target w =
     (case predicted_answer state of
        Inl e \<Rightarrow> (Inl e, w)
      | Inr predicted \<Rightarrow>
          (case extract_tool_calls to_str state of
             Inl e \<Rightarrow> (Inl e, w)
           | Inr (tool_called, tool_names) \<Rightarrow>
               if tool_called \<and> predicted = [] then
                 (Inr (tool_abstention predicted tool_names), w)
               else
                 (case baseline_grader state target w of
                    (Inl e, w') \<Rightarrow> (Inl e, w')
                  | (Inr graded, w') \<Rightarrow>
                      (case merge_metadata (metadata_or_empty graded) tool_called tool_names of
                         Inl e \<Rightarrow> (Inl e, w')
                       | Inr md \<Rightarrow>
                           (Inr \<lparr>score_value = score_value graded, answer = answer graded,
                                 metadata = Some md\<rparr>, w')))))"

text \<open>A mock grader for the examples: it returns a fixed outcome and counts its calls
  in the world state.\<close>

definition counting_grader ::
  "error + Score \<Rightarrow> pyval \<Rightarrow> 't \<Rightarrow> nat \<Rightarrow> (error + Score) \<times> nat" where
  "counting_grader outcome state target calls = (outcome, Suc calls)"

section \<open>Notions the statements use\<close>

text \<open>The lower-cased grade of a score, as line 88 reads it.\<close>

definition grade_of :: "Score \<Rightarrow> error + string" where
  "grade_of s = lowered_grade (metadata_or_empty s)"

text \<open>In the specification's words: the number of scores whose lower-cased grade is
  \<^verbatim>\<open>"correct"\<close> or \<^verbatim>\<open>"incorrect"\<close>, and the number of those whose lower-cased grade is
  \<^verbatim>\<open>"incorrect"\<close>.\<close>

definition spec_attempted_count :: "Score list \<Rightarrow> nat" where
  "spec_attempted_count scores =
     length (filter (\<lambda>s. grade_of s = Inr ''correct'' \<or> grade_of s = Inr ''incorrect'') scores)"

definition spec_incorrect_count :: "Score list \<Rightarrow> nat" where
  "spec_incorrect_count scores = length (filter (\<lambda>s. grade_of s = Inr ''incorrect'') scores)"

text \<open>The three metadata fields the loop reads from a score (lines 88 to 90), each with
  the default of its \<^verbatim>\<open>.get\<close>.\<close>

definition read_fields :: "Score \<Rightarrow> pyval \<times> pyval \<times> pyval" where
  "read_fields s =
     (let md = metadata_or_empty s in
      (dict_get md ''grade'' PNone, dict_get md ''tool_called'' (PBool False),
       dict_get md ''abstention_reason'' PNone))"

text \<open>A message the fallback loop passes over: its role is not \<^verbatim>\<open>"assistant"\<close>, or its
  \<^verbatim>\<open>tool_calls\<close> is falsy (and neither read raises).\<close>

definition passed_over :: "pyval \<Rightarrow> bool" where
  "passed_over m =
     (case getattr m ''role'' PNone of
        Inl e \<Rightarrow> False
      | Inr role \<Rightarrow>
          role \<noteq> PStr ''assistant'' \<or>
          (case getattr m ''tool_calls'' PNone of
             Inl e \<Rightarrow> False
           | Inr m_tool_calls \<Rightarrow> \<not> truthy m_tool_calls))"

section \<open>Facts about the detector\<close>

lemma names_of_calls_called:
  "names_of_calls to_str v acc = Inr (tool_called, tool_names) \<Longrightarrow> tool_called"
  by (auto simp: names_of_calls_def split: sum.splits)

lemma names_of_calls_list:
  "names_of_calls to_str (PList tcs) acc =
     (case collect_tool_names to_str tcs acc of
        Inl e \<Rightarrow> Inl e
      | Inr tool_names \<Rightarrow> Inr (True, tool_names))"
  by (simp add: names_of_calls_def)

lemma getattr_PObj:
  "getattr (PObj attrs) name dflt = Inr (case map_of attrs name of Some v \<Rightarrow> v | None \<Rightarrow> dflt)"
  by (simp add: getattr_def split: option.splits)

lemma scan_messages_called_or_unchanged:
  "scan_messages to_str ms acc = Inr (tool_called, tool_names) \<Longrightarrow>
   tool_called \<or> tool_names = acc"
  by (induction ms)
    (auto dest: names_of_calls_called split: if_splits sum.splits)

lemma scan_messages_skip:
  "\<forall>p\<in>set pre. passed_over p
   \<Longrightarrow> scan_messages to_str (pre @ ms) acc = scan_messages to_str ms acc"
  by (induction pre) (auto simp: passed_over_def split: sum.splits)

text \<open>
  C2. Whenever the detector returns, \<open>tool_called\<close> is true if \<open>tool_names\<close> is not
  empty, and \<open>tool_names\<close> is empty if \<open>tool_called\<close> is false. The converse of the
  second half, that an empty \<open>tool_names\<close> means \<open>tool_called\<close> is false, is not part
  of the statement: see \<open>tool_called_with_no_name\<close> below.
\<close>

theorem tool_names_imply_tool_called:
  assumes "extract_tool_calls to_str state = Inr (tool_called, tool_names)"
  shows "(tool_names \<noteq> [] \<longrightarrow> tool_called) \<and> (\<not> tool_called \<longrightarrow> tool_names = [])"
  using assms
  by (auto simp: extract_tool_calls_def Let_def
      dest: names_of_calls_called scan_messages_called_or_unchanged
      split: sum.splits if_splits)

text \<open>The theorem at a transcript whose output message asks for \<^verbatim>\<open>web_search\<close> by a
  dictionary with a \<^verbatim>\<open>name\<close>.\<close>

theorem tool_names_imply_tool_called_witness:
  "extract_tool_calls no_render
     (PObj [(''output'', PObj [(''completion'', PStr []),
              (''message'', PObj [(''tool_calls'',
                 PList [PDict [(''name'', PStr ''web_search'')]])])])])
     = Inr (True, [''web_search''])
   \<and> [''web_search''] \<noteq> []"
proof -
  have run: "extract_tool_calls no_render
     (PObj [(''output'', PObj [(''completion'', PStr []),
              (''message'', PObj [(''tool_calls'',
                 PList [PDict [(''name'', PStr ''web_search'')]])])])])
     = Inr (True, [''web_search''])"
    by code_simp
  from tool_names_imply_tool_called [OF run] show ?thesis
    using run by simp
qed

text \<open>
  The second half of C2 as the specification words it fails: an entry from which no
  name can be read still counts as a call. Here the single entry is an object whose
  \<^verbatim>\<open>function\<close> attribute is the string \<^verbatim>\<open>"web_search"\<close> and which has no \<^verbatim>\<open>name\<close>; the
  detector returns \<open>tool_called = True\<close> with \<open>tool_names\<close> empty.
\<close>

theorem tool_called_with_no_name:
  "extract_tool_calls no_render
     (PObj [(''output'', PObj [(''completion'', PStr []),
              (''message'', PObj [(''tool_calls'',
                 PList [PObj [(''id'', PStr ''call_1''),
                              (''function'', PStr ''web_search''),
                              (''arguments'', PDict [(''query'', PStr ''capital of France'')])]])])])])
     = Inr (True, [])"
  by code_simp

text \<open>
  Where the name loop returns, the fallback reads the first match only. Let the primary
  output message carry a falsy \<^verbatim>\<open>tool_calls\<close>, and let the history be \<open>pre @ m # post\<close>,
  where \<open>m\<close> has role \<^verbatim>\<open>"assistant"\<close> and carries the non-empty list \<open>tcs\<close> of tool calls,
  and every message of \<open>pre\<close> is passed over. Then the detector's outcome is that of the
  name loop over \<open>tcs\<close> alone: \<open>tool_called = True\<close> with the names read from \<open>tcs\<close> in
  order, or the exception of that loop. Neither \<open>pre\<close> nor \<open>post\<close> has a part in it.
\<close>

lemma first_assistant_tool_calls:
  assumes out: "attr state ''output'' = Inr output"
    and message: "getattr output ''message'' PNone = Inr msg"
    and primary: "getattr msg ''tool_calls'' PNone = Inr tool_calls" "\<not> truthy tool_calls"
    and history: "getattr state ''messages'' (PList []) = Inr (PList (pre @ m # post))"
    and pre: "\<forall>p\<in>set pre. passed_over p"
    and role: "getattr m ''role'' PNone = Inr (PStr ''assistant'')"
    and calls: "getattr m ''tool_calls'' PNone = Inr (PList tcs)" "tcs \<noteq> []"
  shows "extract_tool_calls to_str state =
     (case collect_tool_names to_str tcs [] of
        Inl e \<Rightarrow> Inl e
      | Inr tool_names \<Rightarrow> Inr (True, tool_names))"
proof -
  have "scan_messages to_str (pre @ m # post) [] = scan_messages to_str (m # post) []"
    using pre by (rule scan_messages_skip)
  also have "\<dots> = names_of_calls to_str (PList tcs) []"
    using role calls by simp
  finally have "scan_messages to_str (pre @ m # post) [] =
     (case collect_tool_names to_str tcs [] of
        Inl e \<Rightarrow> Inl e
      | Inr tool_names \<Rightarrow> Inr (True, tool_names))"
    by (simp only: names_of_calls_list)
  then show ?thesis
    using out message primary history by (simp add: extract_tool_calls_def)
qed

text \<open>At a history of four messages (a user message, an assistant message without tool
  calls, an assistant message asking for \<^verbatim>\<open>web_search\<close> and a later one asking for
  \<^verbatim>\<open>calculator\<close>) only \<^verbatim>\<open>web_search\<close> is reported.\<close>

lemma first_assistant_tool_calls_example:
  "extract_tool_calls no_render
     (PObj [(''output'', PObj [(''completion'', PStr []), (''message'', PObj [(''tool_calls'', PNone)])]),
            (''messages'', PList (
               [PObj [(''role'', PStr ''user'')],
                PObj [(''role'', PStr ''assistant''), (''tool_calls'', PList [])]]
               @ PObj [(''role'', PStr ''assistant''),
                       (''tool_calls'', PList [PObj [(''name'', PStr ''web_search'')]])]
               # [PObj [(''role'', PStr ''assistant''),
                        (''tool_calls'', PList [PObj [(''name'', PStr ''calculator'')]])]]))])
     = Inr (True, [''web_search''])"
proof -
  let ?msg = "PObj [(''tool_calls'', PNone)]"
  let ?output = "PObj [(''completion'', PStr []), (''message'', ?msg)]"
  let ?pre = "[PObj [(''role'', PStr ''user'')],
               PObj [(''role'', PStr ''assistant''), (''tool_calls'', PList [])]]"
  let ?tcs = "[PObj [(''name'', PStr ''web_search'')]]"
  let ?m = "PObj [(''role'', PStr ''assistant''), (''tool_calls'', PList ?tcs)]"
  let ?post = "[PObj [(''role'', PStr ''assistant''),
                      (''tool_calls'', PList [PObj [(''name'', PStr ''calculator'')]])]]"
  let ?state = "PObj [(''output'', ?output), (''messages'', PList (?pre @ ?m # ?post))]"
  have out: "attr ?state ''output'' = Inr ?output" by simp
  have message: "getattr ?output ''message'' PNone = Inr ?msg"
    by (simp add: getattr_PObj)
  have primary: "getattr ?msg ''tool_calls'' PNone = Inr PNone" "\<not> truthy PNone"
    by (simp_all add: getattr_PObj)
  have history: "getattr ?state ''messages'' (PList []) = Inr (PList (?pre @ ?m # ?post))"
    by (simp add: getattr_PObj)
  have pre: "\<forall>p\<in>set ?pre. passed_over p"
    by (simp add: passed_over_def getattr_PObj)
  have role: "getattr ?m ''role'' PNone = Inr (PStr ''assistant'')"
    by (simp add: getattr_PObj)
  have calls: "getattr ?m ''tool_calls'' PNone = Inr (PList ?tcs)" "?tcs \<noteq> []"
    by (simp_all add: getattr_PObj)
  have names: "collect_tool_names no_render ?tcs [] = Inr [''web_search'']"
    by code_simp
  show ?thesis
    using first_assistant_tool_calls [OF out message primary history pre role calls, of no_render]
    by (simp only: names sum.case)
qed

text \<open>A property getter that raises anything but \<^verbatim>\<open>AttributeError\<close> is not covered by the
  default of \<^verbatim>\<open>getattr\<close>: on an output without choices, whose \<^verbatim>\<open>message\<close> property raises
  \<^verbatim>\<open>IndexError\<close>, line 29 raises, and the history is never read.\<close>

lemma message_property_error_goes_through:
  "extract_tool_calls no_render
     (PObj [(''output'', PObjProps [(''completion'', PStr [])] [(''message'', IndexError)]),
            (''messages'', PList
               [PObj [(''role'', PStr ''assistant''),
                      (''tool_calls'', PList [PObj [(''name'', PStr ''web_search'')]])]])])
     = Inl IndexError"
  by code_simp

text \<open>
  C6. With no tool call on the primary output message, the detector is to return
  \<open>tool_called = True\<close> with the names of the first assistant message of the history
  that carries a non-empty list of tool calls. It does not when an entry of that list
  is a dictionary without a truthy \<^verbatim>\<open>name\<close> whose \<^verbatim>\<open>function\<close> is a non-empty string: line
  54, the copy of line 36 in the fallback loop, calls \<^verbatim>\<open>.get\<close> on that string, and the
  detector ends in \<^verbatim>\<open>AttributeError\<close> where \<open>(True, [])\<close> was due.
\<close>

theorem first_assistant_dict_entry_raises:
  "extract_tool_calls no_render
     (PObj [(''output'', PObj [(''completion'', PStr []), (''message'', PObj [(''tool_calls'', PNone)])]),
            (''messages'', PList
               [PObj [(''role'', PStr ''user'')],
                PObj [(''role'', PStr ''assistant''),
                      (''tool_calls'',
                       PList [PDict [(''id'', PStr ''call_1''),
                                     (''function'', PStr ''web_search'')]])]])])
     = Inl AttributeError"
  by code_simp

text \<open>
  C9. The detector is meant to return a pair for every shape of transcript. It does
  not: when a tool-call entry is a dictionary without a truthy \<^verbatim>\<open>name\<close> whose \<^verbatim>\<open>function\<close>
  is a non-empty string, line 36 calls \<^verbatim>\<open>.get\<close> on that string and the detector ends
  in \<^verbatim>\<open>AttributeError\<close>. (The object branch of lines 38 to 41 reads the same shape with
  \<^verbatim>\<open>getattr\<close> and a default, and returns.)
\<close>

theorem dict_entry_with_function_string_raises:
  "extract_tool_calls no_render
     (PObj [(''output'', PObj [(''completion'', PStr []),
              (''message'', PObj [(''tool_calls'',
                 PList [PDict [(''id'', PStr ''call_1''),
                               (''function'', PStr ''web_search''),
                               (''arguments'', PDict [(''query'', PStr ''capital of France'')])]])])])])
     = Inl AttributeError"
  by code_simp

section \<open>Facts about the scorer\<close>

lemma filter_update_other:
  "k \<in> K \<Longrightarrow>
   filter (\<lambda>p. fst p \<notin> K) (AList.update k v al) = filter (\<lambda>p. fst p \<notin> K) al"
  by (induction al) auto

lemma score_delegated:
  assumes "predicted_answer state = Inr predicted"
    and "extract_tool_calls to_str state = Inr (tool_called, tool_names)"
    and "\<not> (tool_called \<and> predicted = [])"
    and "baseline_grader state target w = (Inr graded, w')"
  shows "score to_str baseline_grader state target w =
     (case merge_metadata (metadata_or_empty graded) tool_called tool_names of
        Inl e \<Rightarrow> (Inl e, w')
      | Inr md \<Rightarrow> (Inr \<lparr>score_value = score_value graded, answer = answer graded,
                         metadata = Some md\<rparr>, w'))"
  using assms by (auto simp add: score_def)

lemma abstention_reason_of_readable:
  assumes "truthy (dict_get md ''abstention_reason'' PNone) \<or>
           dict_get md ''grade'' (PStr []) = PStr g"
  shows "abstention_reason_of md tool_called =
     Inr (let r = dict_get md ''abstention_reason'' PNone in
          if truthy r then r
          else if lower g = ''not_attempted'' \<and> \<not> tool_called
               then PStr ''grader_not_attempted'' else PNone)"
  using assms by (auto simp: abstention_reason_of_def Let_def)

lemma merge_metadata_lookup:
  "abstention_reason_of md tool_called = Inr r \<Longrightarrow>
   \<exists>md'. merge_metadata md tool_called tool_names = Inr md' \<and>
     map_of md' = (map_of md)(''tool_called'' \<mapsto> PBool tool_called,
       ''tools'' \<mapsto> PList (map PStr tool_names), ''abstention_reason'' \<mapsto> r)"
  by (simp add: merge_metadata_def update_conv')

lemma merge_metadata_frame:
  assumes "merge_metadata md tool_called tool_names = Inr md'"
  shows "filter (\<lambda>p. fst p \<notin> {''tool_called'', ''tools'', ''abstention_reason''}) md' =
         filter (\<lambda>p. fst p \<notin> {''tool_called'', ''tools'', ''abstention_reason''}) md"
proof -
  let ?K = "{''tool_called'', ''tools'', ''abstention_reason''}"
  let ?md1 = "AList.update ''tool_called'' (PBool tool_called) md"
  let ?md2 = "AList.update ''tools'' (PList (map PStr tool_names)) ?md1"
  obtain r where md': "md' = AList.update ''abstention_reason'' r ?md2"
    using assms by (auto simp: merge_metadata_def split: sum.splits)
  have "filter (\<lambda>p. fst p \<notin> ?K) md' = filter (\<lambda>p. fst p \<notin> ?K) ?md2"
    unfolding md' by (rule filter_update_other) simp
  also have "\<dots> = filter (\<lambda>p. fst p \<notin> ?K) ?md1"
    by (rule filter_update_other) simp
  also have "\<dots> = filter (\<lambda>p. fst p \<notin> ?K) md"
    by (rule filter_update_other) simp
  finally show ?thesis .
qed

text \<open>
  C1. When the detector reports \<open>tool_called = True\<close> with the names \<open>tool_names\<close> and
  the trimmed output text is empty, the scorer returns the score with value \<open>0.0\<close>,
  grade \<^verbatim>\<open>"not_attempted"\<close>, grade letter \<^verbatim>\<open>"C"\<close>, \<open>tool_called = True\<close>, \<open>tools\<close> equal to
  \<open>tool_names\<close> and abstention reason \<^verbatim>\<open>"tool_call"\<close>. It does so whatever the baseline
  grader is, and hands back the state \<open>w\<close> of the world as it received it: the grader
  was not called.
\<close>

theorem tool_call_without_answer_not_graded:
  assumes "extract_tool_calls to_str state = Inr (True, tool_names)"
    and "predicted_answer state = Inr []"
  shows "score to_str baseline_grader state target w =
     (Inr \<lparr>score_value = PFloat 0, answer = Some [],
           metadata = Some [(''grade'', PStr ''not_attempted''),
                            (''grade_letter'', PStr ''C''),
                            (''tool_called'', PBool True),
                            (''tools'', PList (map PStr tool_names)),
                            (''abstention_reason'', PStr ''tool_call'')]\<rparr>, w)"
  using assms by (simp add: score_def tool_abstention_def)

text \<open>The theorem at a transcript that asks for \<^verbatim>\<open>web_search\<close> and whose completion is
  blank, with a mock grader that counts its calls: the count stays 0.\<close>

theorem tool_call_without_answer_not_graded_witness:
  "score no_render (counting_grader (Inl (GraderError ''judge unavailable'')))
     (PObj [(''output'', PObj [(''completion'', PStr '' ''),
              (''message'', PObj [(''tool_calls'',
                 PList [PDict [(''name'', PStr ''web_search'')]])])])])
     () 0
   = (Inr \<lparr>score_value = PFloat 0, answer = Some [],
           metadata = Some [(''grade'', PStr ''not_attempted''),
                            (''grade_letter'', PStr ''C''),
                            (''tool_called'', PBool True),
                            (''tools'', PList [PStr ''web_search'']),
                            (''abstention_reason'', PStr ''tool_call'')]\<rparr>, 0)"
proof -
  let ?state = "PObj [(''output'', PObj [(''completion'', PStr '' ''),
              (''message'', PObj [(''tool_calls'',
                 PList [PDict [(''name'', PStr ''web_search'')]])])])]"
  have detected: "extract_tool_calls no_render ?state = Inr (True, [''web_search''])"
    by code_simp
  have blank: "predicted_answer ?state = Inr []"
    by code_simp
  show ?thesis
    using tool_call_without_answer_not_graded [OF detected blank,
        of "counting_grader (Inl (GraderError ''judge unavailable''))" "()" 0]
    by simp
qed

text \<open>
  C3. Let a sample be handed to the baseline grader, which returns \<open>graded\<close> with
  metadata \<open>md\<close>. When the baseline's own \<^verbatim>\<open>abstention_reason\<close> is truthy (neither missing,
  nor \<^verbatim>\<open>None\<close>, nor empty, zero or \<^verbatim>\<open>False\<close>), the merged metadata keeps it. Otherwise,
  when the baseline's \<^verbatim>\<open>grade\<close> is missing or is a string \<open>g\<close> (\<open>g\<close> being empty when it is
  missing), the merged \<^verbatim>\<open>abstention_reason\<close> is \<^verbatim>\<open>"grader_not_attempted"\<close> if \<open>g\<close> lower-cased
  is \<^verbatim>\<open>"not_attempted"\<close> and no tool was called, and \<^verbatim>\<open>None\<close> if not.
\<close>

theorem delegated_abstention_reason:
  assumes answered: "predicted_answer state = Inr predicted"
    and detected: "extract_tool_calls to_str state = Inr (tool_called, tool_names)"
    and delegated: "\<not> (tool_called \<and> predicted = [])"
    and graded: "baseline_grader state target w = (Inr graded, w')"
    and readable: "truthy (dict_get (metadata_or_empty graded) ''abstention_reason'' PNone) \<or>
                   dict_get (metadata_or_empty graded) ''grade'' (PStr []) = PStr g"
  shows "\<exists>sc md. score to_str baseline_grader state target w = (Inr sc, w') \<and>
           metadata sc = Some md \<and>
           map_of md ''abstention_reason'' =
             Some (let r = dict_get (metadata_or_empty graded) ''abstention_reason'' PNone in
                   if truthy r then r
                   else if lower g = ''not_attempted'' \<and> \<not> tool_called
                        then PStr ''grader_not_attempted'' else PNone)"
proof -
  let ?md = "metadata_or_empty graded"
  let ?r = "let r = dict_get ?md ''abstention_reason'' PNone in
            if truthy r then r
            else if lower g = ''not_attempted'' \<and> \<not> tool_called
                 then PStr ''grader_not_attempted'' else PNone"
  have r: "abstention_reason_of ?md tool_called = Inr ?r"
    using readable by (rule abstention_reason_of_readable)
  obtain md' where merged: "merge_metadata ?md tool_called tool_names = Inr md'"
    and lookup: "map_of md' = (map_of ?md)(''tool_called'' \<mapsto> PBool tool_called,
       ''tools'' \<mapsto> PList (map PStr tool_names), ''abstention_reason'' \<mapsto> ?r)"
    using merge_metadata_lookup [OF r] by blast
  let ?sc = "\<lparr>score_value = score_value graded, answer = answer graded, metadata = Some md'\<rparr>"
  have "score to_str baseline_grader state target w = (Inr ?sc, w')"
    using score_delegated [where baseline_grader = baseline_grader and target = target
        and w = w, OF answered detected delegated graded] merged by simp
  moreover have "metadata ?sc = Some md'" by simp
  moreover have "map_of md' ''abstention_reason'' = Some ?r"
    unfolding lookup by simp
  ultimately show ?thesis by blast
qed

text \<open>The theorem at an answered sample without tool calls that the baseline grades
  \<^verbatim>\<open>"NOT_ATTEMPTED"\<close>, in capitals and with no abstention reason of its own.\<close>

theorem delegated_abstention_reason_witness:
  "\<exists>sc md. score no_render
       (counting_grader (Inr \<lparr>score_value = PFloat 0, answer = Some ''I do not know'',
          metadata = Some [(''grade'', PStr ''NOT_ATTEMPTED'')]\<rparr>))
       (PObj [(''output'', PObj [(''completion'', PStr ''I do not know'')])]) () 0
       = (Inr sc, Suc 0) \<and>
     metadata sc = Some md \<and>
     map_of md ''abstention_reason'' = Some (PStr ''grader_not_attempted'')"
proof -
  let ?graded = "\<lparr>score_value = PFloat 0, answer = Some ''I do not know'',
          metadata = Some [(''grade'', PStr ''NOT_ATTEMPTED'')]\<rparr>"
  let ?state = "PObj [(''output'', PObj [(''completion'', PStr ''I do not know'')])]"
  have answered: "predicted_answer ?state = Inr ''I do not know''"
    by code_simp
  have detected: "extract_tool_calls no_render ?state = Inr (False, [])"
    by code_simp
  have delegated: "\<not> (False \<and> ''I do not know'' = [])"
    by simp
  have graded: "counting_grader (Inr ?graded) ?state () 0 = (Inr ?graded, Suc 0)"
    by (simp add: counting_grader_def)
  have readable: "truthy (dict_get (metadata_or_empty ?graded) ''abstention_reason'' PNone) \<or>
      dict_get (metadata_or_empty ?graded) ''grade'' (PStr []) = PStr ''NOT_ATTEMPTED''"
    by (simp add: metadata_or_empty_def dict_get_def)
  have lowered: "lower ''NOT_ATTEMPTED'' = ''not_attempted''"
    by code_simp
  show ?thesis
    using delegated_abstention_reason [where baseline_grader = "counting_grader (Inr ?graded)"
        and target = "()" and w = 0, OF answered detected delegated graded readable]
    by (simp add: lowered metadata_or_empty_def dict_get_def)
qed

text \<open>
  C3 as the specification words it asks that a baseline reason that is set to anything
  but \<^verbatim>\<open>None\<close> be kept. The \<^verbatim>\<open>or\<close> of line 161 tests truthiness: here the baseline sets the
  reason to the empty string and grades \<^verbatim>\<open>"not_attempted"\<close>, no tool is called, and the
  merged reason is \<^verbatim>\<open>"grader_not_attempted"\<close>, not the empty string.
\<close>

theorem empty_abstention_reason_replaced:
  "score no_render
     (counting_grader (Inr \<lparr>score_value = PFloat 0, answer = Some ''I do not know'',
        metadata = Some [(''grade'', PStr ''not_attempted''), (''grade_letter'', PStr ''C''),
                         (''abstention_reason'', PStr [])]\<rparr>))
     (PObj [(''output'', PObj [(''completion'', PStr ''I do not know'')])]) () 0
   = (Inr \<lparr>score_value = PFloat 0, answer = Some ''I do not know'',
        metadata = Some [(''grade'', PStr ''not_attempted''), (''grade_letter'', PStr ''C''),
                         (''abstention_reason'', PStr ''grader_not_attempted''),
                         (''tool_called'', PBool False), (''tools'', PList [])]\<rparr>, Suc 0)"
  by code_simp

text \<open>
  Where the merge can read the grade, the baseline's score is kept. Let the trimmed
  output text be non-empty, let the detector return (with \<open>tool_called\<close> true or
  false) and let the baseline grader return \<open>graded\<close>, whose \<^verbatim>\<open>abstention_reason\<close> is truthy
  or whose \<^verbatim>\<open>grade\<close> is missing or a string. Then the scorer returns a score with the
  value and the answer of \<open>graded\<close>. Its metadata holds, apart from the keys
  \<^verbatim>\<open>tool_called\<close>, \<^verbatim>\<open>tools\<close> and \<^verbatim>\<open>abstention_reason\<close>, exactly the entries of the baseline's
  metadata, in their order; under \<^verbatim>\<open>tool_called\<close> and \<^verbatim>\<open>tools\<close> it holds the detector's
  result, and the key \<^verbatim>\<open>abstention_reason\<close> is present.
\<close>

lemma delegated_score_frame:
  assumes answered: "predicted_answer state = Inr predicted"
    and nonempty: "predicted \<noteq> []"
    and detected: "extract_tool_calls to_str state = Inr (tool_called, tool_names)"
    and graded: "baseline_grader state target w = (Inr graded, w')"
    and readable: "truthy (dict_get (metadata_or_empty graded) ''abstention_reason'' PNone) \<or>
                   dict_get (metadata_or_empty graded) ''grade'' (PStr []) = PStr g"
  shows "\<exists>sc md r. score to_str baseline_grader state target w = (Inr sc, w') \<and>
           score_value sc = score_value graded \<and>
           answer sc = answer graded \<and>
           metadata sc = Some md \<and>
           filter (\<lambda>p. fst p \<notin> {''tool_called'', ''tools'', ''abstention_reason''}) md =
             filter (\<lambda>p. fst p \<notin> {''tool_called'', ''tools'', ''abstention_reason''})
               (metadata_or_empty graded) \<and>
           map_of md ''tool_called'' = Some (PBool tool_called) \<and>
           map_of md ''tools'' = Some (PList (map PStr tool_names)) \<and>
           map_of md ''abstention_reason'' = Some r"
proof -
  let ?md = "metadata_or_empty graded"
  obtain r where r: "abstention_reason_of ?md tool_called = Inr r"
    using abstention_reason_of_readable [OF readable] by blast
  obtain md' where merged: "merge_metadata ?md tool_called tool_names = Inr md'"
    and lookup: "map_of md' = (map_of ?md)(''tool_called'' \<mapsto> PBool tool_called,
       ''tools'' \<mapsto> PList (map PStr tool_names), ''abstention_reason'' \<mapsto> r)"
    using merge_metadata_lookup [OF r] by blast
  let ?sc = "\<lparr>score_value = score_value graded, answer = answer graded, metadata = Some md'\<rparr>"
  have delegated: "\<not> (tool_called \<and> predicted = [])"
    using nonempty by simp
  have "score to_str baseline_grader state target w = (Inr ?sc, w')"
    using score_delegated [where baseline_grader = baseline_grader and target = target
        and w = w, OF answered detected delegated graded] merged by simp
  moreover have "score_value ?sc = score_value graded" "answer ?sc = answer graded"
    "metadata ?sc = Some md'"
    by simp_all
  moreover have "filter (\<lambda>p. fst p \<notin> {''tool_called'', ''tools'', ''abstention_reason''}) md' =
      filter (\<lambda>p. fst p \<notin> {''tool_called'', ''tools'', ''abstention_reason''}) ?md"
    using merged by (rule merge_metadata_frame)
  moreover have "map_of md' ''tool_called'' = Some (PBool tool_called)"
    "map_of md' ''tools'' = Some (PList (map PStr tool_names))"
    "map_of md' ''abstention_reason'' = Some r"
    unfolding lookup by simp_all
  ultimately show ?thesis by blast
qed

text \<open>So it is at a sample that both asks for \<^verbatim>\<open>web_search\<close> and answers, graded
  \<^verbatim>\<open>"correct"\<close> by a baseline whose metadata already holds \<^verbatim>\<open>tool_called\<close>.\<close>

lemma delegated_score_frame_example:
  "\<exists>sc md r. score no_render
       (counting_grader (Inr \<lparr>score_value = PFloat 1, answer = Some ''Paris'',
          metadata = Some [(''grade'', PStr ''correct''), (''tool_called'', PBool False),
                           (''grade_letter'', PStr ''A'')]\<rparr>))
       (PObj [(''output'', PObj [(''completion'', PStr ''Paris ''),
                (''message'', PObj [(''tool_calls'',
                   PList [PDict [(''name'', PStr ''web_search'')]])])])]) () 0
       = (Inr sc, Suc 0) \<and>
     score_value sc = PFloat 1 \<and>
     answer sc = Some ''Paris'' \<and>
     metadata sc = Some md \<and>
     filter (\<lambda>p. fst p \<notin> {''tool_called'', ''tools'', ''abstention_reason''}) md =
       [(''grade'', PStr ''correct''), (''grade_letter'', PStr ''A'')] \<and>
     map_of md ''tool_called'' = Some (PBool True) \<and>
     map_of md ''tools'' = Some (PList [PStr ''web_search'']) \<and>
     map_of md ''abstention_reason'' = Some r"
proof -
  let ?graded = "\<lparr>score_value = PFloat 1, answer = Some ''Paris'',
          metadata = Some [(''grade'', PStr ''correct''), (''tool_called'', PBool False),
                           (''grade_letter'', PStr ''A'')]\<rparr>"
  let ?state = "PObj [(''output'', PObj [(''completion'', PStr ''Paris ''),
                (''message'', PObj [(''tool_calls'',
                   PList [PDict [(''name'', PStr ''web_search'')]])])])]"
  have answered: "predicted_answer ?state = Inr ''Paris''"
    by code_simp
  have nonempty: "''Paris'' \<noteq> []"
    by simp
  have detected: "extract_tool_calls no_render ?state = Inr (True, [''web_search''])"
    by code_simp
  have graded: "counting_grader (Inr ?graded) ?state () 0 = (Inr ?graded, Suc 0)"
    by (simp add: counting_grader_def)
  have readable: "truthy (dict_get (metadata_or_empty ?graded) ''abstention_reason'' PNone) \<or>
      dict_get (metadata_or_empty ?graded) ''grade'' (PStr []) = PStr ''correct''"
    by (simp add: metadata_or_empty_def dict_get_def)
  show ?thesis
    using delegated_score_frame [where baseline_grader = "counting_grader (Inr ?graded)"
        and target = "()" and w = 0, OF answered nonempty detected graded readable]
    by (simp add: metadata_or_empty_def)
qed

text \<open>An answered sample whose tool-call entry is a dictionary with a string for
  \<^verbatim>\<open>function\<close> never reaches the grader: the detector raises inside the scorer.\<close>

lemma answered_sample_detector_raises:
  "score no_render
     (counting_grader (Inr \<lparr>score_value = PFloat 1, answer = Some ''Paris'',
        metadata = Some [(''grade'', PStr ''correct'')]\<rparr>))
     (PObj [(''output'', PObj [(''completion'', PStr ''Paris''),
              (''message'', PObj [(''tool_calls'',
                 PList [PDict [(''id'', PStr ''call_1''),
                               (''function'', PStr ''web_search'')]])])])]) () 0
   = (Inl AttributeError, 0)"
  by code_simp

text \<open>
  C4. With a non-empty trimmed output text the scorer is to return the baseline's
  value and answer, and the baseline's metadata with the three keys \<^verbatim>\<open>tool_called\<close>,
  \<^verbatim>\<open>tools\<close> and \<^verbatim>\<open>abstention_reason\<close> set. It does not when the baseline's metadata holds
  \<^verbatim>\<open>None\<close> under \<^verbatim>\<open>grade\<close> and no truthy \<^verbatim>\<open>abstention_reason\<close>: line 162 reads the grade
  with \<^verbatim>\<open>md.get("grade", "")\<close>, whose default stands in for a missing key only, calls
  \<^verbatim>\<open>.lower()\<close> on \<^verbatim>\<open>None\<close>, and the scorer ends in \<^verbatim>\<open>AttributeError\<close> after the grader has
  run. (Line 88 reads the same field with \<^verbatim>\<open>md.get("grade") or ""\<close> and lower-cases the
  empty string.)
\<close>

theorem answered_sample_none_grade_raises:
  "score no_render
     (counting_grader (Inr \<lparr>score_value = PFloat 1, answer = Some ''Paris'',
        metadata = Some [(''grade'', PNone), (''grade_letter'', PStr ''A'')]\<rparr>))
     (PObj [(''output'', PObj [(''completion'', PStr ''Paris'')])]) () 0
   = (Inl AttributeError, Suc 0)"
  by code_simp

section \<open>Facts about the aggregator\<close>

lemma spec_attempted_count_Cons:
  "spec_attempted_count (s # ss) =
     (if grade_of s = Inr ''correct'' \<or> grade_of s = Inr ''incorrect'' then 1 else 0)
     + spec_attempted_count ss"
  by (simp add: spec_attempted_count_def)

lemma spec_incorrect_count_Cons:
  "spec_incorrect_count (s # ss) =
     (if grade_of s = Inr ''incorrect'' then 1 else 0) + spec_incorrect_count ss"
  by (simp add: spec_incorrect_count_def)

lemma tally_counts:
  "tally ss (a, b, c, d) = Inr (a', b', c', d') \<Longrightarrow>
   c' = c + spec_attempted_count ss \<and> d' = d + spec_incorrect_count ss"
proof (induction ss arbitrary: a b c d)
  case Nil
  then show ?case by (simp add: spec_attempted_count_def spec_incorrect_count_def)
next
  case (Cons s ss)
  from Cons.prems obtain g where g: "lowered_grade (metadata_or_empty s) = Inr g"
    by (auto simp: Let_def split: sum.splits)
  show ?case
    using Cons.prems g
    by (auto simp: Let_def spec_attempted_count_Cons spec_incorrect_count_Cons grade_of_def
        split: if_splits dest!: Cons.IH)
qed

lemma tally_bounds:
  "tally ss (a, b, c, d) = Inr (a', b', c', d') \<Longrightarrow>
   a' \<le> a + length ss \<and> b' \<le> b + length ss \<and> c' \<le> c + length ss \<and> d' + c \<le> d + c'"
proof (induction ss arbitrary: a b c d)
  case Nil
  then show ?case by simp
next
  case (Cons s ss)
  from Cons.prems obtain g where g: "lowered_grade (metadata_or_empty s) = Inr g"
    by (auto simp: Let_def split: sum.splits)
  show ?case
    using Cons.prems g
    by (auto simp: Let_def split: if_splits dest!: Cons.IH)
qed

lemma tally_returns:
  "\<forall>s\<in>set ss. \<exists>g. grade_of s = Inr g \<Longrightarrow> \<exists>r. tally ss acc = Inr r"
proof (induction ss arbitrary: acc)
  case Nil
  show ?case by (rule exI [of _ acc]) simp
next
  case (Cons s ss acc)
  obtain a b c d where acc: "acc = (a, b, c, d)" using prod_cases4 by blast
  from Cons.prems obtain g where g: "lowered_grade (metadata_or_empty s) = Inr g"
    by (auto simp: grade_of_def)
  from Cons.prems have rest: "\<forall>s\<in>set ss. \<exists>g. grade_of s = Inr g" by simp
  show ?case
    unfolding acc using g Cons.IH [OF rest] by (simp add: Let_def)
qed

lemma tally_cong:
  "list_all2 (\<lambda>x y. read_fields x = read_fields y) xs ys \<Longrightarrow> tally xs acc = tally ys acc"
proof (induction xs ys arbitrary: acc rule: list_all2_induct)
  case Nil
  then show ?case by simp
next
  case (Cons x xs y ys acc)
  obtain a b c d where acc: "acc = (a, b, c, d)" using prod_cases4 by blast
  from Cons.hyps(1) have grade:
    "dict_get (metadata_or_empty x) ''grade'' PNone = dict_get (metadata_or_empty y) ''grade'' PNone"
    and tool: "dict_get (metadata_or_empty x) ''tool_called'' (PBool False) =
      dict_get (metadata_or_empty y) ''tool_called'' (PBool False)"
    and reason: "dict_get (metadata_or_empty x) ''abstention_reason'' PNone =
      dict_get (metadata_or_empty y) ''abstention_reason'' PNone"
    by (simp_all add: read_fields_def Let_def)
  have lowered: "lowered_grade (metadata_or_empty x) = lowered_grade (metadata_or_empty y)"
    by (simp only: lowered_grade_def grade)
  show ?case
    unfolding acc by (simp only: tally.simps Let_def lowered tool reason Cons.IH)
qed

lemma rate_le_one: "a \<le> n \<Longrightarrow> (of_nat a :: rat) / of_nat n \<le> 1"
  by (cases "n = 0") (simp_all add: divide_le_eq_1)

lemma metric_calculator_nonempty:
  assumes "scores \<noteq> []"
    and "tally scores (0, 0, 0, 0) = Inr (a, b, c, d)"
  shows "metric_calculator scores =
     Inr \<lparr>search_call_rate = of_nat a / of_nat (length scores),
          abstain_via_tool_rate = of_nat b / of_nat (length scores),
          attempted_answer_rate = of_nat c / of_nat (length scores),
          hallucination_rate = (if c > 0 then of_nat d / of_nat c else 0)\<rparr>"
  using assms by (simp add: metric_calculator_def Let_def)

lemma metric_calculator_counts:
  assumes nonempty: "scores \<noteq> []"
    and readable: "\<forall>s\<in>set scores. \<exists>g. grade_of s = Inr g"
  shows "\<exists>m. metric_calculator scores = Inr m \<and>
     attempted_answer_rate m = of_nat (spec_attempted_count scores) / of_nat (length scores) \<and>
     hallucination_rate m =
       (if 0 < spec_attempted_count scores
        then of_nat (spec_incorrect_count scores) / of_nat (spec_attempted_count scores) else 0)"
proof -
  obtain r where "tally scores (0, 0, 0, 0) = Inr r"
    using tally_returns [OF readable] by blast
  moreover obtain a b c d where "r = (a, b, c, d)"
    using prod_cases4 by blast
  ultimately have run: "tally scores (0, 0, 0, 0) = Inr (a, b, c, d)"
    by simp
  from tally_counts [OF run] have c: "c = spec_attempted_count scores"
    and d: "d = spec_incorrect_count scores"
    by simp_all
  show ?thesis
    using metric_calculator_nonempty [OF nonempty run] by (simp add: c d)
qed

text \<open>
  C7. With no score at all the aggregator does not fail: it returns the four rates
  \<open>search_call_rate\<close>, \<open>abstain_via_tool_rate\<close>, \<open>attempted_answer_rate\<close> and
  \<open>hallucination_rate\<close>, each equal to zero.
\<close>

theorem metric_calculator_no_scores:
  "metric_calculator [] =
     Inr \<lparr>search_call_rate = 0, abstain_via_tool_rate = 0,
          attempted_answer_rate = 0, hallucination_rate = 0\<rparr>"
  by (simp add: metric_calculator_def)

text \<open>
  C5. For a non-empty collection of scores whose grades can be read (each grade is
  missing, falsy or a string), the aggregator returns, and its \<open>hallucination_rate\<close> is
  the number of scores whose lower-cased grade is \<^verbatim>\<open>"incorrect"\<close> divided by the number
  whose lower-cased grade is \<^verbatim>\<open>"correct"\<close> or \<^verbatim>\<open>"incorrect"\<close> when that number is positive,
  and 0 otherwise. In particular two scores, one graded \<^verbatim>\<open>"incorrect"\<close> and one graded
  \<^verbatim>\<open>"correct"\<close>, in either order, give \<open>attempted_answer_rate = 1\<close> and
  \<open>hallucination_rate = 1/2\<close>.
\<close>

theorem hallucination_rate_ratio:
  "(scores \<noteq> [] \<and> (\<forall>s\<in>set scores. \<exists>g. grade_of s = Inr g) \<longrightarrow>
      (\<exists>m. metric_calculator scores = Inr m \<and>
           hallucination_rate m =
             (if 0 < spec_attempted_count scores
              then of_nat (spec_incorrect_count scores) / of_nat (spec_attempted_count scores)
              else 0))) \<and>
   (grade_of s1 = Inr ''incorrect'' \<and> grade_of s2 = Inr ''correct'' \<longrightarrow>
      (\<exists>m. metric_calculator [s1, s2] = Inr m \<and>
           attempted_answer_rate m = 1 \<and> hallucination_rate m = 1 / 2) \<and>
      (\<exists>m. metric_calculator [s2, s1] = Inr m \<and>
           attempted_answer_rate m = 1 \<and> hallucination_rate m = 1 / 2))"
proof (intro conjI impI)
  assume "scores \<noteq> [] \<and> (\<forall>s\<in>set scores. \<exists>g. grade_of s = Inr g)"
  then show "\<exists>m. metric_calculator scores = Inr m \<and>
           hallucination_rate m =
             (if 0 < spec_attempted_count scores
              then of_nat (spec_incorrect_count scores) / of_nat (spec_attempted_count scores)
              else 0)"
    using metric_calculator_counts [of scores] by blast
next
  assume grades: "grade_of s1 = Inr ''incorrect'' \<and> grade_of s2 = Inr ''correct''"
  then have "\<forall>s\<in>set [s1, s2]. \<exists>g. grade_of s = Inr g"
    by simp
  from metric_calculator_counts [OF _ this] grades
  show "\<exists>m. metric_calculator [s1, s2] = Inr m \<and>
           attempted_answer_rate m = 1 \<and> hallucination_rate m = 1 / 2"
    by (simp add: spec_attempted_count_Cons spec_incorrect_count_Cons spec_attempted_count_def spec_incorrect_count_def)
next
  assume grades: "grade_of s1 = Inr ''incorrect'' \<and> grade_of s2 = Inr ''correct''"
  then have "\<forall>s\<in>set [s2, s1]. \<exists>g. grade_of s = Inr g"
    by simp
  from metric_calculator_counts [OF _ this] grades
  show "\<exists>m. metric_calculator [s2, s1] = Inr m \<and>
           attempted_answer_rate m = 1 \<and> hallucination_rate m = 1 / 2"
    by (simp add: spec_attempted_count_Cons spec_incorrect_count_Cons spec_attempted_count_def spec_incorrect_count_def)
qed

text \<open>The theorem at three scores graded \<^verbatim>\<open>"incorrect"\<close>, \<^verbatim>\<open>"CORRECT"\<close> and
  \<^verbatim>\<open>"not_attempted"\<close>, and at the first two of them.\<close>

theorem hallucination_rate_ratio_witness:
  "(\<exists>m. metric_calculator
          [\<lparr>score_value = PFloat 0, answer = Some ''Lyon'',
             metadata = Some [(''grade'', PStr ''incorrect'')]\<rparr>,
           \<lparr>score_value = PFloat 1, answer = Some ''Paris'',
             metadata = Some [(''grade'', PStr ''CORRECT'')]\<rparr>,
           \<lparr>score_value = PFloat 0, answer = Some [],
             metadata = Some [(''grade'', PStr ''not_attempted'')]\<rparr>] = Inr m \<and>
        hallucination_rate m = 1 / 2) \<and>
   (\<exists>m. metric_calculator
          [\<lparr>score_value = PFloat 0, answer = Some ''Lyon'',
             metadata = Some [(''grade'', PStr ''incorrect'')]\<rparr>,
           \<lparr>score_value = PFloat 1, answer = Some ''Paris'',
             metadata = Some [(''grade'', PStr ''CORRECT'')]\<rparr>] = Inr m \<and>
        attempted_answer_rate m = 1 \<and> hallucination_rate m = 1 / 2)"
proof -
  let ?s1 = "\<lparr>score_value = PFloat 0, answer = Some ''Lyon'',
             metadata = Some [(''grade'', PStr ''incorrect'')]\<rparr>"
  let ?s2 = "\<lparr>score_value = PFloat 1, answer = Some ''Paris'',
             metadata = Some [(''grade'', PStr ''CORRECT'')]\<rparr>"
  let ?s3 = "\<lparr>score_value = PFloat 0, answer = Some [],
             metadata = Some [(''grade'', PStr ''not_attempted'')]\<rparr>"
  have g1: "grade_of ?s1 = Inr ''incorrect''" by code_simp
  have g2: "grade_of ?s2 = Inr ''correct''" by code_simp
  have g3: "grade_of ?s3 = Inr ''not_attempted''" by code_simp
  have nonempty: "[?s1, ?s2, ?s3] \<noteq> []" by simp
  have readable: "\<forall>s\<in>set [?s1, ?s2, ?s3]. \<exists>g. grade_of s = Inr g"
    using g1 g2 g3 by simp
  have attempted: "spec_attempted_count [?s1, ?s2, ?s3] = 2"
    by (simp add: spec_attempted_count_def g1 g2 g3)
  have incorrect: "spec_incorrect_count [?s1, ?s2, ?s3] = 1"
    by (simp add: spec_incorrect_count_def g1 g2 g3)
  note ratio = hallucination_rate_ratio [of "[?s1, ?s2, ?s3]" ?s1 ?s2]
  from ratio nonempty readable
  have "\<exists>m. metric_calculator [?s1, ?s2, ?s3] = Inr m \<and>
      hallucination_rate m =
        (if 0 < spec_attempted_count [?s1, ?s2, ?s3]
         then of_nat (spec_incorrect_count [?s1, ?s2, ?s3]) /
              of_nat (spec_attempted_count [?s1, ?s2, ?s3])
         else 0)"
    by blast
  then have first: "\<exists>m. metric_calculator [?s1, ?s2, ?s3] = Inr m \<and> hallucination_rate m = 1 / 2"
    by (simp add: attempted incorrect)
  from ratio g1 g2
  have second: "\<exists>m. metric_calculator [?s1, ?s2] = Inr m \<and>
      attempted_answer_rate m = 1 \<and> hallucination_rate m = 1 / 2"
    by blast
  from first second show ?thesis by (rule conjI)
qed

text \<open>
  C5 as the specification words it speaks of every non-empty collection. The grade is
  lower-cased as a string (line 88), so a collection that holds a truthy grade that is
  not a string gives no rates: here the second grade is the integer 5, and the
  aggregator ends in \<^verbatim>\<open>AttributeError\<close>.
\<close>

theorem integer_grade_gives_no_rates:
  "metric_calculator
     [\<lparr>score_value = PFloat 1, answer = Some ''Paris'',
        metadata = Some [(''grade'', PStr ''correct'')]\<rparr>,
      \<lparr>score_value = PFloat 0, answer = Some ''Lyon'',
        metadata = Some [(''grade'', PInt 5)]\<rparr>]
   = Inl AttributeError"
  by code_simp

text \<open>
  C8. Whatever the metadata of the scores, whenever the aggregator returns its rates,
  each of \<open>search_call_rate\<close>, \<open>abstain_via_tool_rate\<close>, \<open>attempted_answer_rate\<close> and
  \<open>hallucination_rate\<close> lies between 0 and 1.
\<close>

theorem rates_in_unit_interval:
  assumes "metric_calculator scores = Inr m"
  shows "0 \<le> search_call_rate m \<and> search_call_rate m \<le> 1 \<and>
         0 \<le> abstain_via_tool_rate m \<and> abstain_via_tool_rate m \<le> 1 \<and>
         0 \<le> attempted_answer_rate m \<and> attempted_answer_rate m \<le> 1 \<and>
         0 \<le> hallucination_rate m \<and> hallucination_rate m \<le> 1"
proof (cases "scores = []")
  case True
  with assms show ?thesis
    by (auto simp: metric_calculator_def)
next
  case False
  from assms False obtain r where "tally scores (0, 0, 0, 0) = Inr r"
    by (cases "tally scores (0, 0, 0, 0)") (simp_all add: metric_calculator_def Let_def)
  moreover obtain a b c d where "r = (a, b, c, d)"
    using prod_cases4 by blast
  ultimately have run: "tally scores (0, 0, 0, 0) = Inr (a, b, c, d)"
    by simp
  from tally_bounds [OF run] have le: "a \<le> length scores" "b \<le> length scores"
    "c \<le> length scores" "d \<le> c"
    by simp_all
  have m: "m = \<lparr>search_call_rate = of_nat a / of_nat (length scores),
          abstain_via_tool_rate = of_nat b / of_nat (length scores),
          attempted_answer_rate = of_nat c / of_nat (length scores),
          hallucination_rate = (if c > 0 then of_nat d / of_nat c else 0)\<rparr>"
    using metric_calculator_nonempty [OF False run] assms by simp
  show ?thesis
    unfolding m using le by (simp add: rate_le_one)
qed

text \<open>The theorem at three scores: an answered one that also called a tool, an
  abstention by tool call, and one without metadata.\<close>

theorem rates_in_unit_interval_witness:
  "metric_calculator
     [\<lparr>score_value = PFloat 0, answer = Some ''Lyon'',
        metadata = Some [(''grade'', PStr ''incorrect''), (''tool_called'', PBool True)]\<rparr>,
      \<lparr>score_value = PFloat 0, answer = Some [],
        metadata = Some [(''grade'', PStr ''not_attempted''), (''tool_called'', PBool True),
                         (''abstention_reason'', PStr ''tool_call'')]\<rparr>,
      \<lparr>score_value = PInt 7, answer = None, metadata = None\<rparr>]
   = Inr \<lparr>search_call_rate = 2 / 3, abstain_via_tool_rate = 1 / 3,
          attempted_answer_rate = 1 / 3, hallucination_rate = 1\<rparr>
   \<and> (0::rat) \<le> 2 / 3 \<and> (2 / 3 :: rat) \<le> 1 \<and> (0::rat) \<le> 1 / 3 \<and> (1 / 3 :: rat) \<le> 1"
proof -
  have run: "metric_calculator
     [\<lparr>score_value = PFloat 0, answer = Some ''Lyon'',
        metadata = Some [(''grade'', PStr ''incorrect''), (''tool_called'', PBool True)]\<rparr>,
      \<lparr>score_value = PFloat 0, answer = Some [],
        metadata = Some [(''grade'', PStr ''not_attempted''), (''tool_called'', PBool True),
                         (''abstention_reason'', PStr ''tool_call'')]\<rparr>,
      \<lparr>score_value = PInt 7, answer = None, metadata = None\<rparr>]
   = Inr \<lparr>search_call_rate = 2 / 3, abstain_via_tool_rate = 1 / 3,
          attempted_answer_rate = 1 / 3, hallucination_rate = 1\<rparr>"
    by code_simp
  from rates_in_unit_interval [OF run] show ?thesis
    using run by simp
qed

text \<open>
  C10. The rates depend on a score only through the three metadata fields \<^verbatim>\<open>grade\<close>,
  \<^verbatim>\<open>tool_called\<close> and \<^verbatim>\<open>abstention_reason\<close> as the loop reads them: two collections of the
  same length whose scores agree pairwise on the three fields give the same outcome,
  whatever their values, answers and other metadata keys.
\<close>

theorem rates_depend_on_three_fields:
  assumes "list_all2 (\<lambda>x y. read_fields x = read_fields y) xs ys"
  shows "metric_calculator xs = metric_calculator ys"
proof -
  have "tally xs (0, 0, 0, 0) = tally ys (0, 0, 0, 0)"
    using assms by (rule tally_cong)
  moreover have "length xs = length ys"
    using assms by (rule list_all2_lengthD)
  moreover from this have "xs = [] \<longleftrightarrow> ys = []"
    by auto
  ultimately show ?thesis
    by (simp add: metric_calculator_def Let_def)
qed

text \<open>The theorem at two collections that differ in value, answer, the order of the
  keys and a further key.\<close>

theorem rates_depend_on_three_fields_witness:
  "metric_calculator
     [\<lparr>score_value = PFloat 1, answer = Some ''Paris'',
        metadata = Some [(''grade'', PStr ''correct''), (''tool_called'', PBool True)]\<rparr>,
      \<lparr>score_value = PFloat 0, answer = Some [],
        metadata = Some [(''grade'', PStr ''not_attempted''), (''tool_called'', PBool True),
                         (''abstention_reason'', PStr ''tool_call'')]\<rparr>]
   = metric_calculator
     [\<lparr>score_value = PInt 5, answer = None,
        metadata = Some [(''tool_called'', PBool True), (''grade'', PStr ''correct''),
                         (''grade_letter'', PStr ''A'')]\<rparr>,
      \<lparr>score_value = PStr ''C'', answer = Some ''none'',
        metadata = Some [(''abstention_reason'', PStr ''tool_call''),
                         (''tools'', PList [PStr ''web_search'']),
                         (''grade'', PStr ''not_attempted''), (''tool_called'', PBool True)]\<rparr>]"
proof -
  have agree: "list_all2 (\<lambda>x y. read_fields x = read_fields y)
     [\<lparr>score_value = PFloat 1, answer = Some ''Paris'',
        metadata = Some [(''grade'', PStr ''correct''), (''tool_called'', PBool True)]\<rparr>,
      \<lparr>score_value = PFloat 0, answer = Some [],
        metadata = Some [(''grade'', PStr ''not_attempted''), (''tool_called'', PBool True),
                         (''abstention_reason'', PStr ''tool_call'')]\<rparr>]
     [\<lparr>score_value = PInt 5, answer = None,
        metadata = Some [(''tool_called'', PBool True), (''grade'', PStr ''correct''),
                         (''grade_letter'', PStr ''A'')]\<rparr>,
      \<lparr>score_value = PStr ''C'', answer = Some ''none'',
        metadata = Some [(''abstention_reason'', PStr ''tool_call''),
                         (''tools'', PList [PStr ''web_search'']),
                         (''grade'', PStr ''not_attempted''), (''tool_called'', PBool True)]\<rparr>]"
    by (simp add: read_fields_def metadata_or_empty_def dict_get_def)
  show ?thesis
    using agree by (rule rates_depend_on_three_fields)
qed

end
